theory Spec2Isabelle
  imports Complex_Main "HOL-Library.Multiset"
begin

section \<open>Strings as the front end reads them\<close>

text \<open>
  A JavaScript string is modelled by a \<^typ>\<open>string\<close>: one \<^typ>\<open>char\<close> per code unit,
  for code units below 256 (ASCII and Latin-1). The helpers below are the
  \<^verbatim>\<open>String.prototype\<close> methods the sources call.
\<close>

definition lower_char :: "char \<Rightarrow> char" where
  "lower_char c =
     (let n = (of_char c :: nat)
      in if (65 \<le> n \<and> n \<le> 90) \<or> (192 \<le> n \<and> n \<le> 222 \<and> n \<noteq> 215)
         then char_of (n + 32) else c)"

definition toLowerCase :: "string \<Rightarrow> string" where
  "toLowerCase s = map lower_char s"

definition is_space :: "char \<Rightarrow> bool" where
  \<comment> \<open>White space and line terminators of ECMAScript below code unit 256.\<close>
  "is_space c = ((of_char c :: nat) \<in> set [9, 10, 11, 12, 13, 32, 160])"

definition trim :: "string \<Rightarrow> string" where
  "trim s = rev (dropWhile is_space (rev (dropWhile is_space s)))"

fun starts_with :: "string \<Rightarrow> string \<Rightarrow> bool" where
  "starts_with s [] = True"
| "starts_with [] (p # ps) = False"
| "starts_with (c # cs) (p # ps) = (c = p \<and> starts_with cs ps)"

fun includes_str :: "string \<Rightarrow> string \<Rightarrow> bool" where
  \<comment> \<open>\<^verbatim>\<open>s.includes(t)\<close>: \<open>t\<close> occurs in \<open>s\<close> as a contiguous run.\<close>
  "includes_str [] t = (t = [])"
| "includes_str (c # cs) t = (starts_with (c # cs) t \<or> includes_str cs t)"

definition is_hex :: "char \<Rightarrow> bool" where
  \<comment> \<open>The class \<^verbatim>\<open>[0-9a-f]\<close> under the flag \<^verbatim>\<open>i\<close>.\<close>
  "is_hex c =
     (let n = (of_char c :: nat)
      in (48 \<le> n \<and> n \<le> 57) \<or> (97 \<le> n \<and> n \<le> 102) \<or> (65 \<le> n \<and> n \<le> 70))"




section \<open>JSON values, errors and HTTP responses\<close>

datatype json =
    JNull
  | JBool bool
  | JNum int
  | JStr string
  | JArr "json list"
  | JObj "(string \<times> json) list"

text \<open>
  Numbers are integers here: the code only asks whether a number is zero (its truth value).
  A thrown JavaScript value is an \<open>js_error\<close>; a promise that rejects and a
  \<^verbatim>\<open>throw\<close> are both the left summand of a result.
\<close>

datatype js_error =
    Error string
  | TypeError string
  | SyntaxError string

record response =
  status_code :: nat
  statusText :: string
  body :: "json option"

definition ok :: "response \<Rightarrow> bool" where
  \<comment> \<open>\<^verbatim>\<open>response.ok\<close>: the status is in the range 200 to 299.\<close>
  "ok r = (200 \<le> status_code r \<and> status_code r \<le> 299)"

definition response_json :: "response \<Rightarrow> js_error + json" where
  \<comment> \<open>\<^verbatim>\<open>await response.json()\<close>: rejects when the body is not JSON (\<open>None\<close>).\<close>
  "response_json r =
     (case body r of
        None \<Rightarrow> Inl (SyntaxError ''Unexpected token'')
      | Some v \<Rightarrow> Inr v)"

fun isArray :: "json \<Rightarrow> bool" where
  "isArray (JArr xs) = True"
| "isArray v = False"

fun truthy :: "json option \<Rightarrow> bool" where
  \<comment> \<open>\<open>None\<close> is \<^verbatim>\<open>undefined\<close>.\<close>
  "truthy None = False"
| "truthy (Some JNull) = False"
| "truthy (Some (JBool b)) = b"
| "truthy (Some (JNum n)) = (n \<noteq> 0)"
| "truthy (Some (JStr s)) = (s \<noteq> [])"
| "truthy (Some (JArr xs)) = True"
| "truthy (Some (JObj kvs)) = True"

fun get_property :: "json \<Rightarrow> string \<Rightarrow> js_error + json option" where
  \<comment> \<open>\<^verbatim>\<open>data.key\<close> on a parsed JSON value. Reading a property of \<^verbatim>\<open>null\<close> throws;
      a number, string or boolean has no such property; in an object the last of several
      equal keys is the one \<^verbatim>\<open>JSON.parse\<close> keeps.\<close>
  "get_property JNull k = Inl (TypeError ''Cannot read properties of null'')"
| "get_property (JObj kvs) k = Inr (map_of (rev kvs) k)"
| "get_property v k = Inr None"

definition or_else :: "json option \<Rightarrow> json \<Rightarrow> json" where
  \<comment> \<open>\<^verbatim>\<open>v || d\<close>\<close>
  "or_else v d = (case v of None \<Rightarrow> d | Some x \<Rightarrow> if truthy v then x else d)"

section \<open>The voice catalogue: voiceApi.getAll\<close>

definition getAll_body :: "js_error + response \<Rightarrow> js_error + json" where
  \<comment> \<open>The guarded block; \<open>fetched\<close> is the outcome of
      \<^verbatim>\<open>await fetch('/api/voices')\<close>, \<open>Inl\<close> when the request itself fails.\<close>
  "getAll_body fetched =
     (case fetched of
        Inl e \<Rightarrow> Inl e
      | Inr response \<Rightarrow>
          if \<not> ok response
          then Inl (Error (''Failed to fetch voices: '' @ statusText response))
          else (case response_json response of
                  Inl e \<Rightarrow> Inl e
                | Inr data \<Rightarrow>
                    if isArray data then Inr data
                    else (case get_property data ''voices'' of
                            Inl e \<Rightarrow> Inl e
                          | Inr v \<Rightarrow> Inr (or_else v (JArr [])))))"

definition getAll :: "js_error + response \<Rightarrow> js_error + json" where
  \<comment> \<open>The value is the \<^verbatim>\<open>data\<close> field of the object returned; \<open>Inl\<close> would be an
      error reaching the caller.\<close>
  "getAll fetched =
     (case getAll_body fetched of
        Inl error \<Rightarrow> Inr (JArr [])
      | Inr voices \<Rightarrow> Inr voices)"

section \<open>Job retrieval: podcastApi.getById\<close>



section \<open>The podcasts table\<close>

text \<open>
  The table of \<^verbatim>\<open>supabase-alter.sql\<close>. A column without \<^verbatim>\<open>NOT NULL\<close> holds an
  option, \<open>None\<close> being \<^verbatim>\<open>NULL\<close>. An id is held as the text the database prints for a
  uuid (32 hexadecimal digits in lower case, grouped 8-4-4-4-12). \<open>created_at\<close> is a finite
  instant in microseconds since 1970, the resolution of \<^verbatim>\<open>TIMESTAMPTZ\<close>. \<open>metadata\<close> is
  the JSON value as it was written; the order in which \<^verbatim>\<open>JSONB\<close> keeps the keys of an
  object is not modelled. The five fields of \<open>podcast_data\<close> are the ones a creation
  request carries. Row-level security is outside the model: the caller is taken to be
  allowed every row it addresses.
\<close>

record podcast_data =
  topics :: "string list"
  duration :: int
  host_voice :: string
  co_host_voice :: string
  language :: string

record podcast_row = podcast_data +
  row_id :: string
  created_at :: "int option"
  user_id :: string
  status :: "string option"
  url :: "string option"
  metadata :: "json option"
  transcript :: "string option"
  message :: "string option"

datatype db_error =
    NotNullViolation
  | CheckViolation
  | UniqueViolation
  | NoSingleRow
  | RangeNotSatisfiable
  | ServiceError string
  | InvalidTextRepresentation
  | NumericValueOutOfRange
  | DatetimeFieldOverflow
  | NulInText

subsection \<open>What the column types accept\<close>

definition skip_dash :: "nat \<Rightarrow> string \<Rightarrow> string" where
  \<comment> \<open>In the text of a uuid a dash may follow each group of four digits but the last;
      \<open>n\<close> is the number of bytes still to be read.\<close>
  "skip_dash n s =
     (case s of
        [] \<Rightarrow> s
      | c # cs \<Rightarrow> if c = CHR ''-'' \<and> even n \<and> 0 < n then cs else s)"

fun uuid_bytes :: "nat \<Rightarrow> string \<Rightarrow> (string \<times> string) option" where
  \<comment> \<open>Reads \<open>n\<close> bytes of two hexadecimal digits each: the digits in lower case and the
      rest of the text, or \<open>None\<close> when the text does not go on like a uuid.\<close>
  "uuid_bytes 0 s = Some ([], s)"
| "uuid_bytes (Suc n) (a # b # rest) =
     (if is_hex a \<and> is_hex b
      then (case uuid_bytes n (skip_dash n rest) of
              None \<Rightarrow> None
            | Some (digits, r) \<Rightarrow> Some (lower_char a # lower_char b # digits, r))
      else None)"
| "uuid_bytes (Suc n) s = None"

definition uuid_out :: "string \<Rightarrow> string" where
  \<comment> \<open>The 32 digits of a uuid as the database prints them.\<close>
  "uuid_out digits =
     take 8 digits @ ''-'' @ take 4 (drop 8 digits) @ ''-'' @ take 4 (drop 12 digits) @ ''-''
       @ take 4 (drop 16 digits) @ ''-'' @ drop 20 digits"

definition uuid_in :: "string \<Rightarrow> string option" where
  \<comment> \<open>The uuid that a text denotes for the column type \<^verbatim>\<open>UUID\<close>, as the database
      prints it; \<open>None\<close> when the database refuses the text (error 22P02). Upper and lower
      case, braces around the whole and dashes after groups of four digits are accepted.\<close>
  "uuid_in s =
     (let braces = (case s of [] \<Rightarrow> False | c # cs \<Rightarrow> c = CHR ''{'');
          src = (if braces then tl s else s)
      in case uuid_bytes 16 src of
           None \<Rightarrow> None
         | Some (digits, rest) \<Rightarrow>
             if rest = (if braces then ''}'' else []) then Some (uuid_out digits) else None)"

definition int32_ok :: "int \<Rightarrow> bool" where
  \<comment> \<open>The values of the column type \<^verbatim>\<open>INTEGER\<close>; beyond them the database raises
      error 22003.\<close>
  "int32_ok n = (- 2147483648 \<le> n \<and> n \<le> 2147483647)"

definition timestamp_ok :: "int \<Rightarrow> bool" where
  \<comment> \<open>The finite instants of \<^verbatim>\<open>TIMESTAMPTZ\<close>, from 4714 BC to the end of the year
      294276, in microseconds since 1970.\<close>
  "timestamp_ok t = (- 210866803200000000 \<le> t \<and> t < 9224318016000000000)"

definition text_ok :: "string \<Rightarrow> bool" where
  \<comment> \<open>A \<^verbatim>\<open>TEXT\<close> value holds no character of code 0.\<close>
  "text_ok s = (CHR 0x00 \<notin> set s)"

definition status_check :: "string option \<Rightarrow> bool" where
  \<comment> \<open>\<^verbatim>\<open>CHECK (status IN ('processing', 'completed', 'failed'))\<close>: a check constraint
      is violated only when its condition is false, and on \<^verbatim>\<open>NULL\<close> the condition is
      unknown, not false.\<close>
  "status_check s =
     (case s of
        None \<Rightarrow> True
      | Some v \<Rightarrow> v = ''processing'' \<or> v = ''completed'' \<or> v = ''failed'')"

datatype 'a cell = Omitted | Null | Given 'a

definition cell_value :: "'a cell \<Rightarrow> 'a option \<Rightarrow> 'a option" where
  \<comment> \<open>The value stored for a column of an \<^verbatim>\<open>INSERT\<close>; \<open>d\<close> is the column's default.\<close>
  "cell_value c d = (case c of Omitted \<Rightarrow> d | Null \<Rightarrow> None | Given v \<Rightarrow> Some v)"

definition refused :: "('a \<Rightarrow> bool) \<Rightarrow> 'a cell \<Rightarrow> bool" where
  \<comment> \<open>A value is given that the column type does not accept.\<close>
  "refused accepts c = (case c of Omitted \<Rightarrow> False | Null \<Rightarrow> False | Given v \<Rightarrow> \<not> accepts v)"

record insert_values =
  new_id :: "string cell"
  new_created_at :: "int cell"
  new_user_id :: "string cell"
  new_status :: "string cell"
  new_duration :: "int cell"
  new_url :: "string cell"
  new_topics :: "string list cell"
  new_host_voice :: "string cell"
  new_co_host_voice :: "string cell"
  new_language :: "string cell"
  new_metadata :: "json cell"
  new_transcript :: "string cell"
  new_message :: "string cell"

definition texts_refused :: "insert_values \<Rightarrow> bool" where
  \<comment> \<open>Some text given for a \<^verbatim>\<open>TEXT\<close> column holds a character of code 0.\<close>
  "texts_refused v =
     (refused text_ok (new_user_id v) \<or> refused text_ok (new_status v)
      \<or> refused text_ok (new_url v) \<or> refused (list_all text_ok) (new_topics v)
      \<or> refused text_ok (new_host_voice v) \<or> refused text_ok (new_co_host_voice v)
      \<or> refused text_ok (new_language v) \<or> refused text_ok (new_transcript v)
      \<or> refused text_ok (new_message v))"

definition insert_row ::
  "string \<Rightarrow> int \<Rightarrow> podcast_row list \<Rightarrow> insert_values \<Rightarrow> db_error + podcast_row list" where
  \<comment> \<open>\<^verbatim>\<open>INSERT INTO podcasts\<close>; \<open>uuid\<close> is what \<^verbatim>\<open>gen_random_uuid()\<close> yields and
      \<open>now\<close> what \<^verbatim>\<open>NOW()\<close> yields. The values are first read into the column types,
      then the \<^verbatim>\<open>NOT NULL\<close> columns, the check and the primary key are looked at.\<close>
  "insert_row uuid now table v =
     (let i = (case cell_value (new_id v) (Some uuid) of None \<Rightarrow> None | Some s \<Rightarrow> uuid_in s);
          u = cell_value (new_user_id v) None;
          d = cell_value (new_duration v) None;
          ts = cell_value (new_topics v) (Some []);
          h = cell_value (new_host_voice v) None;
          c = cell_value (new_co_host_voice v) None;
          l = cell_value (new_language v) None;
          st = cell_value (new_status v) (Some ''processing'')
      in if cell_value (new_id v) (Some uuid) \<noteq> None \<and> i = None
         then Inl InvalidTextRepresentation
         else if refused int32_ok (new_duration v)
         then Inl NumericValueOutOfRange
         else if refused timestamp_ok (new_created_at v)
         then Inl DatetimeFieldOverflow
         else if texts_refused v
         then Inl NulInText
         else if i = None \<or> u = None \<or> d = None \<or> ts = None \<or> h = None \<or> c = None \<or> l = None
         then Inl NotNullViolation
         else if \<not> status_check st
         then Inl CheckViolation
         else if the i \<in> set (map row_id table)
         then Inl UniqueViolation
         else Inr (table @
                [\<lparr>topics = the ts, duration = the d, host_voice = the h,
                  co_host_voice = the c, language = the l,
                  row_id = the i,
                  created_at = cell_value (new_created_at v) (Some now),
                  user_id = the u,
                  status = st,
                  url = cell_value (new_url v) None,
                  metadata = cell_value (new_metadata v) None,
                  transcript = cell_value (new_transcript v) None,
                  message = cell_value (new_message v) None\<rparr>]))"

definition update_where ::
  "(podcast_row \<Rightarrow> bool) \<Rightarrow> (podcast_row \<Rightarrow> podcast_row) \<Rightarrow> podcast_row list
     \<Rightarrow> db_error + (podcast_row list \<times> podcast_row list)" where
  \<comment> \<open>\<^verbatim>\<open>UPDATE podcasts SET ... WHERE ... RETURNING *\<close>: the new table and the rows
      written. The statement fails as a whole, changing nothing, when a new row violates
      the check constraint.\<close>
  "update_where cond change table =
     (let written = map change (filter cond table)
      in if \<not> list_all (\<lambda>r. status_check (status r)) written
         then Inl CheckViolation
         else Inr (map (\<lambda>r. if cond r then change r else r) table, written))"

fun single :: "'a list \<Rightarrow> db_error + 'a" where
  \<comment> \<open>\<^verbatim>\<open>.single()\<close>: exactly one row, or an error.\<close>
  "single [r] = Inr r"
| "single rs = Inl NoSingleRow"

section \<open>podcastOperations: updateStatus and getByUser\<close>

datatype Status = Processing | Completed | Failed

fun status_text :: "Status \<Rightarrow> string" where
  \<comment> \<open>The three literals of the type \<^verbatim>\<open>PodcastRecord['status']\<close>.\<close>
  "status_text Processing = ''processing''"
| "status_text Completed = ''completed''"
| "status_text Failed = ''failed''"

definition set_status :: "Status \<Rightarrow> string option \<Rightarrow> podcast_row \<Rightarrow> podcast_row" where
  \<comment> \<open>The object \<^verbatim>\<open>{ status, message }\<close> as an update: a \<^verbatim>\<open>message\<close> that is
      \<^verbatim>\<open>undefined\<close> (\<open>None\<close>) is dropped from the request body, and the column keeps its value.\<close>
  "set_status st msg r =
     (case msg of
        None \<Rightarrow> r\<lparr>status := Some (status_text st)\<rparr>
      | Some m \<Rightarrow> r\<lparr>status := Some (status_text st), message := Some m\<rparr>)"

definition has_id :: "string \<Rightarrow> podcast_row \<Rightarrow> bool" where
  \<comment> \<open>\<^verbatim>\<open>id = u\<close> on the uuid column: the row's id and \<open>u\<close> are the same uuid, however
      each is spelled.\<close>
  "has_id u r = (uuid_in u \<noteq> None \<and> uuid_in (row_id r) = uuid_in u)"

definition message_ok :: "string option \<Rightarrow> bool" where
  "message_ok msg = (case msg of None \<Rightarrow> True | Some m \<Rightarrow> text_ok m)"

definition updateStatus ::
  "podcast_row list \<Rightarrow> string \<Rightarrow> Status \<Rightarrow> string option
     \<Rightarrow> podcast_row list \<times> (db_error + podcast_row)" where
  \<comment> \<open>The table after the call, and the value returned (\<open>Inr\<close>) or thrown (\<open>Inl\<close>).
      \<^verbatim>\<open>.eq('id', podcastId)\<close> reads \<open>podcastId\<close> as a uuid, and the database refuses a
      text that is none. A write that \<^verbatim>\<open>.single()\<close> refuses is rolled back by the
      service; under the primary key at most one row has the id.\<close>
  "updateStatus table podcastId st msg =
     (if uuid_in podcastId = None then (table, Inl InvalidTextRepresentation)
      else if \<not> message_ok msg then (table, Inl NulInText)
      else
        (case update_where (has_id podcastId) (set_status st msg) table of
           Inl error \<Rightarrow> (table, Inl error)
         | Inr (table', written) \<Rightarrow>
             (case single written of
                Inl error \<Rightarrow> (table, Inl error)
              | Inr data \<Rightarrow> (table', Inr data))))"

definition newer_eq :: "podcast_row \<Rightarrow> podcast_row \<Rightarrow> bool" where
  \<comment> \<open>\<open>a\<close> may stand before \<open>b\<close> under \<^verbatim>\<open>ORDER BY created_at DESC\<close>: the later
      instant first, and \<^verbatim>\<open>NULL\<close> before every instant, as PostgreSQL orders it. Rows
      of one instant may stand either way.\<close>
  "newer_eq a b =
     (case created_at a of
        None \<Rightarrow> True
      | Some x \<Rightarrow> (case created_at b of None \<Rightarrow> False | Some y \<Rightarrow> y \<le> x))"

fun insert_everywhere :: "'a \<Rightarrow> 'a list \<Rightarrow> 'a list list" where
  "insert_everywhere x [] = [[x]]"
| "insert_everywhere x (y # ys) = (x # y # ys) # map ((#) y) (insert_everywhere x ys)"

fun arrangements :: "'a list \<Rightarrow> 'a list list" where
  \<comment> \<open>Every order in which the given rows can stand.\<close>
  "arrangements [] = [[]]"
| "arrangements (x # xs) = concat (map (insert_everywhere x) (arrangements xs))"

definition order_desc :: "podcast_row list \<Rightarrow> podcast_row list list" where
  \<comment> \<open>\<^verbatim>\<open>.order('created_at', { ascending: false })\<close>: every order of the rows that the
      database may answer with. Where two rows have one instant the choice is the
      database's, so there can be several.\<close>
  "order_desc rs = filter (sorted_wrt newer_eq) (arrangements rs)"

definition range_rows :: "int \<Rightarrow> int \<Rightarrow> 'a list \<Rightarrow> db_error + 'a list" where
  \<comment> \<open>\<^verbatim>\<open>.range(from, to)\<close>: offset \<open>from\<close>, limit \<open>to - from + 1\<close>; the database
      refuses a negative offset or limit.\<close>
  "range_rows from to rs =
     (if from < 0 \<or> to - from + 1 < 0 then Inl RangeNotSatisfiable
      else Inr (take (nat (to - from + 1)) (drop (nat from) rs)))"

definition getByUser ::
  "db_error option \<Rightarrow> podcast_row list \<Rightarrow> string \<Rightarrow> int \<Rightarrow> int
     \<Rightarrow> (db_error + (podcast_row list \<times> nat)) set" where
  \<comment> \<open>The outcomes the call can have: \<open>Inr\<close> the pair of \<^verbatim>\<open>data\<close> and \<^verbatim>\<open>count\<close>
      returned, \<open>Inl\<close> the error thrown. There is one outcome for each order the database
      may give the rows. \<open>fault\<close> is the error the service reports for the query, if any
      (the list page expects the range error \<^verbatim>\<open>PGRST103\<close> among them).\<close>
  "getByUser fault table userId page limit =
     (if userId = [] then {Inr ([], 0)}
      else
        (let from = (page - 1) * limit;
             to = from + limit - 1;
             matching = filter (\<lambda>r. user_id r = userId) table
         in case fault of
              Some error \<Rightarrow> {Inl error}
            | None \<Rightarrow>
                set (map (\<lambda>listed.
                            case range_rows from to listed of
                              Inl error \<Rightarrow> Inl error
                            | Inr data \<Rightarrow> Inr (data, length matching))
                       (order_desc matching))))"

section \<open>The retrieval endpoint behind podcastApi.getById\<close>




section \<open>The creation form: CreatePodcastPage\<close>

definition DURATION_OPTIONS :: "(int \<times> string) list" where
  "DURATION_OPTIONS =
     [(60, ''1 minute''), (300, ''5 minutes''), (600, ''10 minutes''),
      (900, ''15 minutes''), (1800, ''30 minutes''), (3600, ''60 minutes'')]"

definition LANGUAGES :: "string list" where
  \<comment> \<open>The \<^verbatim>\<open>value\<close> of each entry.\<close>
  "LANGUAGES =
     [''ar-SA'', ''zh-CN'', ''en-US'', ''en-GB'', ''hi-IN'', ''id-ID'', ''ja-JP'', ''ko-KR'',
      ''ms-MY'', ''fa-IR'', ''ru-RU'', ''es-ES'', ''es-MX'', ''sw-KE'', ''tr-TR'', ''ur-PK'',
      ''vi-VN'']"

text \<open>
  The component's state that a submission reads. The three fields that share a name with a
  column carry the suffix \<open>_state\<close>; \<open>voices\<close> holds the \<^verbatim>\<open>voice_id\<close> of each
  fetched voice.
\<close>

record form_state =
  topics_state :: "string list"
  topicInput :: string
  duration_state :: int
  hostVoice :: string
  coHostVoice :: string
  language_state :: string
  voices :: "string list"

definition initial_form :: form_state where
  \<comment> \<open>The arguments of the \<^verbatim>\<open>useState\<close> calls.\<close>
  "initial_form =
     \<lparr>topics_state = [], topicInput = [], duration_state = 300, hostVoice = [],
      coHostVoice = [], language_state = ''en-US'', voices = []\<rparr>"

datatype form_event =
    VoicesFetched "string list"
  | TopicTyped string
  | AddTopic
  | RemoveTopic nat
  | HostVoicePicked nat
  | CoHostVoicePicked nat
  | DurationPicked nat
  | LanguagePicked nat

definition handleAddTopic :: "form_state \<Rightarrow> form_state" where
  "handleAddTopic f =
     (if trim (topicInput f) \<noteq> [] \<and> trim (topicInput f) \<notin> set (topics_state f)
      then f\<lparr>topics_state := topics_state f @ [trim (topicInput f)], topicInput := []\<rparr>
      else f)"

definition handleRemoveTopic :: "nat \<Rightarrow> form_state \<Rightarrow> form_state" where
  \<comment> \<open>\<^verbatim>\<open>topics.filter((_, i) => i !== index)\<close>\<close>
  "handleRemoveTopic index f =
     f\<lparr>topics_state := take index (topics_state f) @ drop (Suc index) (topics_state f)\<rparr>"

fun form_step :: "form_state \<Rightarrow> form_event \<Rightarrow> form_state" where
  \<comment> \<open>One handler run. A pick names the button by its position in the list that is
      rendered; a position with no button changes nothing.\<close>
  "form_step f (VoicesFetched fetchedVoices) =
     (if 2 \<le> length fetchedVoices
      then f\<lparr>voices := fetchedVoices, hostVoice := fetchedVoices ! 0,
             coHostVoice := fetchedVoices ! 1\<rparr>
      else f\<lparr>voices := fetchedVoices\<rparr>)"
| "form_step f (TopicTyped text) = f\<lparr>topicInput := text\<rparr>"
| "form_step f AddTopic = handleAddTopic f"
| "form_step f (RemoveTopic index) = handleRemoveTopic index f"
| "form_step f (HostVoicePicked i) =
     (if i < length (voices f) then f\<lparr>hostVoice := voices f ! i\<rparr> else f)"
| "form_step f (CoHostVoicePicked i) =
     (if i < length (voices f) then f\<lparr>coHostVoice := voices f ! i\<rparr> else f)"
| "form_step f (DurationPicked i) =
     (if i < length DURATION_OPTIONS
      then f\<lparr>duration_state := fst (DURATION_OPTIONS ! i)\<rparr> else f)"
| "form_step f (LanguagePicked i) =
     (if i < length LANGUAGES then f\<lparr>language_state := LANGUAGES ! i\<rparr> else f)"

definition form_after :: "form_event list \<Rightarrow> form_state" where
  \<comment> \<open>The state of a freshly mounted form after the given events.\<close>
  "form_after events = foldl form_step initial_form events"

datatype submit_outcome =
    Refused string
  | Created podcast_data string

definition handleSubmit :: "string option \<Rightarrow> form_state \<Rightarrow> submit_outcome" where
  \<comment> \<open>\<open>user\<close> is the id of the signed-in user, if any. \<open>Refused\<close> is a return after
      \<^verbatim>\<open>toast.error\<close>; \<open>Created data id\<close> is the call
      \<^verbatim>\<open>podcastApi.create(podcastData, user.id)\<close>. What follows the call (toasts,
      navigation) does not bear on whether and with what it is made.\<close>
  "handleSubmit user f =
     (case user of
        None \<Rightarrow> Refused ''You must be logged in to create a podcast.''
      | Some uid \<Rightarrow>
          if length (topics_state f) = 0 then Refused ''Please add at least one topic.''
          else if hostVoice f = [] then Refused ''Please select a host voice.''
          else if coHostVoice f = [] then Refused ''Please select a co-host voice.''
          else Created \<lparr>topics = topics_state f, duration = duration_state f,
                          host_voice = hostVoice f, co_host_voice = coHostVoice f,
                          language = language_state f\<rparr> uid)"

section \<open>The list page: filteredPodcasts\<close>

definition getTime :: "podcast_row \<Rightarrow> int" where
  \<comment> \<open>\<^verbatim>\<open>new Date(p.created_at).getTime()\<close>, in milliseconds: the digits of the
      printed instant beyond the third are dropped; \<^verbatim>\<open>new Date(null)\<close> is instant 0.
      Instants beyond the years a \<^verbatim>\<open>Date\<close> holds are not told apart from the others.\<close>
  "getTime p = (case created_at p of None \<Rightarrow> 0 | Some t \<Rightarrow> t div 1000)"

definition compare_by :: "string \<Rightarrow> podcast_row \<Rightarrow> podcast_row \<Rightarrow> int" where
  \<comment> \<open>The comparator of the \<^verbatim>\<open>switch (sort)\<close>; \<open>sort_state\<close> is the state \<^verbatim>\<open>sort\<close>.\<close>
  "compare_by sort_state a b =
     (if sort_state = ''created_asc'' then getTime a - getTime b
      else if sort_state = ''created_desc'' then getTime b - getTime a
      else if sort_state = ''duration_asc'' then duration a - duration b
      else if sort_state = ''duration_desc'' then duration b - duration a
      else 0)"

fun insert_by :: "('a \<Rightarrow> 'a \<Rightarrow> int) \<Rightarrow> 'a \<Rightarrow> 'a list \<Rightarrow> 'a list" where
  "insert_by cmp x [] = [x]"
| "insert_by cmp x (y # ys) = (if cmp x y \<le> 0 then x # y # ys else y # insert_by cmp x ys)"

definition sort_by :: "('a \<Rightarrow> 'a \<Rightarrow> int) \<Rightarrow> 'a list \<Rightarrow> 'a list" where
  \<comment> \<open>\<^verbatim>\<open>Array.prototype.sort(cmp)\<close>, which is stable: elements that compare equal keep
      their order.\<close>
  "sort_by cmp xs = foldr (insert_by cmp) xs []"

definition matchesSearch :: "string \<Rightarrow> podcast_row \<Rightarrow> bool" where
  "matchesSearch searchQuery podcast =
     list_ex (\<lambda>topic. includes_str (toLowerCase topic) (toLowerCase searchQuery))
       (topics podcast)"

definition matchesStatus :: "string \<Rightarrow> podcast_row \<Rightarrow> bool" where
  "matchesStatus statusFilter podcast =
     (statusFilter = ''all'' \<or> status podcast = Some statusFilter)"

definition filteredPodcasts ::
  "podcast_row list \<Rightarrow> string \<Rightarrow> string \<Rightarrow> string \<Rightarrow> podcast_row list" where
  "filteredPodcasts podcasts searchQuery statusFilter sort_state =
     sort_by (compare_by sort_state)
       (filter (\<lambda>podcast. matchesSearch searchQuery podcast \<and> matchesStatus statusFilter podcast)
          podcasts)"

section \<open>The Audio Assembler\<close>

text \<open>
  Modelled from the spec: the Assembler is part of the back end, whose code is not among
  the sources. Segments and errors are those of the spec's data model and error taxonomy;
  durations are exact rationals, in seconds.
\<close>

datatype speaker = Host | CoHost

record audio_segment =
  seg_speaker :: speaker
  raw_audio_bytes :: "nat list"
  seg_duration :: rat

datatype piece = Speech audio_segment | Silence rat

datatype pipeline_error =
    NoSourcesFound
  | ScriptGenerationFailed
  | SynthesisFailed nat
  | AssemblyFailed
  | ExternalServiceTimeout

fun piece_duration :: "piece \<Rightarrow> rat" where
  "piece_duration (Speech s) = seg_duration s"
| "piece_duration (Silence d) = d"

fun interleave :: "(nat \<Rightarrow> rat) \<Rightarrow> nat \<Rightarrow> audio_segment list \<Rightarrow> piece list" where
  \<comment> \<open>Modelled from the spec: the Assembler's code is not among the sources. Segments are
      concatenated in order with a silence between consecutive turns; \<open>gap i\<close> is the
      length of the silence after turn \<open>i\<close>, so a policy may lengthen it at a topic change.\<close>
  "interleave gap i [] = []"
| "interleave gap i [s] = [Speech s]"
| "interleave gap i (s # t # ts) = Speech s # Silence (gap i) # interleave gap (Suc i) (t # ts)"

definition assemble ::
  "(nat \<Rightarrow> rat) \<Rightarrow> audio_segment list \<Rightarrow> pipeline_error + (piece list \<times> rat)" where
  \<comment> \<open>Modelled from the spec: \<^verbatim>\<open>assemble(segments) -> (artifact, actual_duration_seconds)\<close>,
      failing with \<open>AssemblyFailed\<close> on an empty list; the duration reported is the
      length of the track that was built.\<close>
  "assemble gap segments =
     (if segments = [] then Inl AssemblyFailed
      else (let artifact = interleave gap 0 segments
            in Inr (artifact, sum_list (map piece_duration artifact))))"

definition fixed_gap :: "rat \<Rightarrow> nat \<Rightarrow> rat" where
  \<comment> \<open>Modelled from the spec: the policy of one fixed silence between all turns.\<close>
  "fixed_gap g i = g"

definition tone :: "rat \<Rightarrow> audio_segment" where
  \<comment> \<open>A dummy segment of a given length, as the round-trip test of the spec feeds.\<close>
  "tone d = \<lparr>seg_speaker = Host, raw_audio_bytes = [], seg_duration = d\<rparr>"

section \<open>The details page: what it shows of a record\<close>

definition has_artifacts :: "podcast_row \<Rightarrow> bool" where
  \<comment> \<open>The three result fields are present and not empty: what the details page tests
      (\<^verbatim>\<open>podcast.url\<close>, \<^verbatim>\<open>podcast.transcript\<close>, \<^verbatim>\<open>podcast.metadata\<close>) before it
      shows the player, the transcript and the sources.\<close>
  "has_artifacts r =
     (metadata r \<noteq> None \<and> metadata r \<noteq> Some JNull
      \<and> transcript r \<noteq> None \<and> transcript r \<noteq> Some []
      \<and> url r \<noteq> None \<and> url r \<noteq> Some [])"

section \<open>Sample records\<close>

definition sample_id :: string where
  "sample_id = ''123e4567-e89b-12d3-a456-426614174000''"

definition sample_insert :: insert_values where
  \<comment> \<open>An \<^verbatim>\<open>INSERT\<close> that names the columns without a default and topics.\<close>
  "sample_insert =
     \<lparr>new_id = Omitted, new_created_at = Omitted, new_user_id = Given ''user_1'',
      new_status = Omitted, new_duration = Given 300, new_url = Omitted,
      new_topics = Given [''ai''], new_host_voice = Given ''v1'',
      new_co_host_voice = Given ''v2'', new_language = Given ''en-US'',
      new_metadata = Omitted, new_transcript = Omitted, new_message = Omitted\<rparr>"

definition sample_row :: podcast_row where
  \<comment> \<open>The row that \<open>sample_insert\<close> stores at instant 0 under \<open>sample_id\<close>.\<close>
  "sample_row =
     \<lparr>topics = [''ai''], duration = 300, host_voice = ''v1'', co_host_voice = ''v2'',
      language = ''en-US'', row_id = sample_id, created_at = Some 0, user_id = ''user_1'',
      status = Some ''processing'', url = None, metadata = None, transcript = None,
      message = None\<rparr>"

definition sample_result :: podcast_row where
  \<comment> \<open>\<open>sample_row\<close> with the three result fields filled in, the status left as it is.\<close>
  "sample_result =
     sample_row\<lparr>url := Some ''/static/podcasts/a.mp3'', metadata := Some (JObj []),
       transcript := Some ''Host: hello''\<rparr>"

definition sample_form :: form_state where
  \<comment> \<open>A form with one topic and the same voice picked for both roles.\<close>
  "sample_form =
     \<lparr>topics_state = [''ai''], topicInput = [], duration_state = 300, hostVoice = ''v1'',
      coHostVoice = ''v1'', language_state = ''en-US'', voices = [''v1'', ''v2'']\<rparr>"

definition sample_response :: "json \<Rightarrow> response" where
  \<comment> \<open>A 200 response with the given JSON body.\<close>
  "sample_response v = \<lparr>status_code = 200, statusText = ''OK'', body = Some v\<rparr>"

section \<open>Facts about the store operations\<close>

lemma status_check_status_text: "status_check (Some (status_text st))"
  by (cases st) (simp_all add: status_check_def)

lemma set_status_eq:
  "set_status st msg r =
     r\<lparr>status := Some (status_text st),
       message := (case msg of None \<Rightarrow> message r | Some m \<Rightarrow> Some m)\<rparr>"
  by (cases msg) (simp_all add: set_status_def)

lemma update_where_set_status:
  "update_where cond (set_status st msg) table =
     Inr (map (\<lambda>r. if cond r then set_status st msg r else r) table,
          map (set_status st msg) (filter cond table))"
  by (simp add: update_where_def Let_def list_all_iff set_status_eq status_check_status_text)

lemma updateStatus_cases:
  "fst (updateStatus table podcastId st msg) = table \<or>
   fst (updateStatus table podcastId st msg) =
     map (\<lambda>r. if has_id podcastId r then set_status st msg r else r) table"
  by (simp add: updateStatus_def update_where_set_status split: sum.splits)

lemma insert_row_status_check:
  assumes "insert_row uuid now table v = Inr table'"
    and "list_all (\<lambda>r. status_check (status r)) table"
  shows "list_all (\<lambda>r. status_check (status r)) table'"
  using assms
  by (auto simp: insert_row_def Let_def split: if_splits)

lemma updateStatus_status_check:
  assumes "list_all (\<lambda>r. status_check (status r)) table"
  shows "list_all (\<lambda>r. status_check (status r)) (fst (updateStatus table podcastId st msg))"
  using assms updateStatus_cases [of table podcastId st msg]
  by (auto simp: list_all_iff set_status_eq status_check_status_text)

lemma find_none_filter:
  "find (\<lambda>r. row_id r = u) table = None \<Longrightarrow> filter (\<lambda>r. row_id r = u) table = []"
  by (induction table) (auto split: if_splits)

lemma find_none_map:
  "find (\<lambda>r. row_id r = u) table = None \<Longrightarrow>
   map (\<lambda>r. if row_id r = u then f r else r) table = table"
  by (induction table) (auto split: if_splits)

lemma absent_id_filter:
  "u \<notin> set (map row_id table) \<Longrightarrow> filter (\<lambda>r. row_id r = u) table = []"
  by (induction table) auto

lemma primary_key_filter:
  "distinct (map row_id table) \<Longrightarrow> find (\<lambda>r. row_id r = u) table = Some x \<Longrightarrow>
   filter (\<lambda>r. row_id r = u) table = [x]"
proof (induction table)
  case Nil
  then show ?case by simp
next
  case (Cons r table)
  show ?case
  proof (cases "row_id r = u")
    case True
    with Cons.prems have "u \<notin> set (map row_id table)" and "x = r" by auto
    with True show ?thesis by (simp add: absent_id_filter)
  next
    case False
    with Cons show ?thesis by simp
  qed
qed

lemma has_id_printed:
  assumes "list_all (\<lambda>r. uuid_in (row_id r) = Some (row_id r)) table"
    and "uuid_in podcastId = Some u"
  shows "filter (has_id podcastId) table = filter (\<lambda>r. row_id r = u) table"
    and "map (\<lambda>r. if has_id podcastId r then f r else r) table =
         map (\<lambda>r. if row_id r = u then f r else r) table"
proof -
  have same: "has_id podcastId r = (row_id r = u)" if "r \<in> set table" for r
    using that assms by (auto simp: has_id_def list_all_iff)
  show "filter (has_id podcastId) table = filter (\<lambda>r. row_id r = u) table"
    by (rule filter_cong) (simp_all add: same)
  show "map (\<lambda>r. if has_id podcastId r then f r else r) table =
        map (\<lambda>r. if row_id r = u then f r else r) table"
    by (rule map_cong) (simp_all add: same)
qed

subsection \<open>Ordering by creation time\<close>












subsection \<open>The client-side sort\<close>

lemma set_insert_by: "set (insert_by cmp x ys) = insert x (set ys)"
  by (induction ys) auto

lemma set_sort_by: "set (sort_by cmp xs) = set xs"
  by (induction xs) (simp_all add: sort_by_def set_insert_by)

subsection \<open>The duration held by the form\<close>

lemma form_step_duration:
  "duration_state f \<in> set (map fst DURATION_OPTIONS) \<Longrightarrow>
   duration_state (form_step f e) \<in> set (map fst DURATION_OPTIONS)"
  by (cases e) (auto simp: handleAddTopic_def handleRemoveTopic_def)

lemma foldl_form_step_duration:
  "duration_state f \<in> set (map fst DURATION_OPTIONS) \<Longrightarrow>
   duration_state (foldl form_step f events) \<in> set (map fst DURATION_OPTIONS)"
proof (induction events arbitrary: f)
  case Nil
  then show ?case by simp
next
  case (Cons e events)
  from Cons.prems have "duration_state (form_step f e) \<in> set (map fst DURATION_OPTIONS)"
    by (rule form_step_duration)
  then have "duration_state (foldl form_step (form_step f e) events)
               \<in> set (map fst DURATION_OPTIONS)"
    by (rule Cons.IH)
  then show ?case by simp
qed

lemma form_after_duration: "duration_state (form_after events) \<in> set (map fst DURATION_OPTIONS)"
  unfolding form_after_def
  by (rule foldl_form_step_duration) (simp add: initial_form_def DURATION_OPTIONS_def)

subsection \<open>The length of an assembled track\<close>

lemma interleave_duration:
  "sum_list (map piece_duration (interleave gap i segments)) =
     sum_list (map seg_duration segments) + sum_list (map gap [i..<i + (length segments - 1)])"
proof (induction gap i segments rule: interleave.induct)
  case (3 gap i s t ts)
  have "[i..<i + Suc (length ts)] = i # [Suc i..<Suc i + length ts]"
    by (simp add: upt_rec)
  with 3 show ?case by simp
qed simp_all

subsection \<open>The voice catalogue never fails\<close>

lemma getAll_returns:
  "getAll fetched =
     Inr (case fetched of
            Inl e \<Rightarrow> JArr []
          | Inr response \<Rightarrow>
              if \<not> ok response then JArr []
              else (case body response of
                      None \<Rightarrow> JArr []
                    | Some (JArr xs) \<Rightarrow> JArr xs
                    | Some (JObj kvs) \<Rightarrow> or_else (map_of (rev kvs) ''voices'') (JArr [])
                    | Some v \<Rightarrow> JArr []))"
  by (auto simp: getAll_def getAll_body_def response_json_def or_else_def
      split: sum.splits option.splits json.splits)

section \<open>The claims\<close>

subsection \<open>C1: completed records and their artifacts\<close>

text \<open>
  C1, as stated, fails. \<open>updateStatus\<close> completes a record that was just created: the
  record is stored as completed while its metadata, transcript and url are all absent.
\<close>

theorem completed_without_artifacts:
  "updateStatus [sample_row] sample_id Completed None =
     ([sample_row\<lparr>status := Some ''completed''\<rparr>],
      Inr (sample_row\<lparr>status := Some ''completed''\<rparr>))
   \<and> metadata (sample_row\<lparr>status := Some ''completed''\<rparr>) = None
   \<and> transcript (sample_row\<lparr>status := Some ''completed''\<rparr>) = None
   \<and> url (sample_row\<lparr>status := Some ''completed''\<rparr>) = None"
proof -
  have "updateStatus [sample_row] sample_id Completed None =
     ([sample_row\<lparr>status := Some ''completed''\<rparr>],
      Inr (sample_row\<lparr>status := Some ''completed''\<rparr>))"
    by code_simp
  then show ?thesis by (simp add: sample_row_def)
qed

text \<open>
  C1, amended. \<open>updateStatus\<close> writes the status (and the message, when one is given) and
  nothing else: whatever status it sets, and whether or not the call succeeds, every record
  keeps the metadata, transcript and url it had. Hence, if every completed record of the
  table holds the three fields, this is still so after the call, provided that a record
  whose id is the uuid the call names, in whatever spelling, held them already when the
  call sets it to completed. Nothing makes the caller keep to that proviso, and a failed
  record keeps the fields it had.
\<close>

theorem updateStatus_keeps_artifacts:
  "map (\<lambda>r. (metadata r, transcript r, url r)) (fst (updateStatus table podcastId st msg)) =
     map (\<lambda>r. (metadata r, transcript r, url r)) table
   \<and> ((\<forall>r \<in> set table. status r = Some ''completed'' \<longrightarrow> has_artifacts r) \<longrightarrow>
        (st = Completed \<longrightarrow> (\<forall>r \<in> set table. has_id podcastId r \<longrightarrow> has_artifacts r)) \<longrightarrow>
        (\<forall>r \<in> set (fst (updateStatus table podcastId st msg)).
           status r = Some ''completed'' \<longrightarrow> has_artifacts r))"
proof (intro conjI impI ballI)
  show "map (\<lambda>r. (metadata r, transcript r, url r)) (fst (updateStatus table podcastId st msg)) =
        map (\<lambda>r. (metadata r, transcript r, url r)) table"
    using updateStatus_cases [of table podcastId st msg]
    by (auto simp: set_status_eq o_def)
next
  fix r'
  assume inv: "\<forall>r \<in> set table. status r = Some ''completed'' \<longrightarrow> has_artifacts r"
    and target: "st = Completed \<longrightarrow> (\<forall>r \<in> set table. has_id podcastId r \<longrightarrow> has_artifacts r)"
    and mem: "r' \<in> set (fst (updateStatus table podcastId st msg))"
    and compl: "status r' = Some ''completed''"
  from updateStatus_cases [of table podcastId st msg]
  show "has_artifacts r'"
  proof
    assume "fst (updateStatus table podcastId st msg) = table"
    with inv mem compl show ?thesis by simp
  next
    assume "fst (updateStatus table podcastId st msg) =
              map (\<lambda>r. if has_id podcastId r then set_status st msg r else r) table"
    with mem obtain r where r: "r \<in> set table"
      and r': "r' = (if has_id podcastId r then set_status st msg r else r)"
      by auto
    show ?thesis
    proof (cases "has_id podcastId r")
      case True
      with r' have eq: "r' = set_status st msg r" by simp
      with compl have "status_text st = ''completed''" by (simp add: set_status_eq)
      then have "st = Completed" by (cases st) simp_all
      with target r True have "has_artifacts r" by simp
      with eq show ?thesis by (simp add: has_artifacts_def set_status_eq)
    next
      case False
      with r' inv r compl show ?thesis by simp
    qed
  qed
qed

text \<open>
  C1, amended, on a record that holds its three fields and is set to completed under the
  upper-case spelling of its id: it is stored as completed with the fields it had.
\<close>

theorem updateStatus_keeps_artifacts_witness:
  "updateStatus [sample_result] ''123E4567-E89B-12D3-A456-426614174000'' Completed None =
     ([sample_result\<lparr>status := Some ''completed''\<rparr>],
      Inr (sample_result\<lparr>status := Some ''completed''\<rparr>))
   \<and> has_artifacts (sample_result\<lparr>status := Some ''completed''\<rparr>)
   \<and> url (sample_result\<lparr>status := Some ''completed''\<rparr>) = Some ''/static/podcasts/a.mp3''"
proof -
  have run: "updateStatus [sample_result] ''123E4567-E89B-12D3-A456-426614174000'' Completed None =
     ([sample_result\<lparr>status := Some ''completed''\<rparr>],
      Inr (sample_result\<lparr>status := Some ''completed''\<rparr>))"
    by code_simp
  have held: "has_artifacts sample_result"
    by (simp add: has_artifacts_def sample_result_def)
  have "status sample_result \<noteq> Some ''completed''"
    by (simp add: sample_result_def sample_row_def)
  with updateStatus_keeps_artifacts
         [of "[sample_result]" "''123E4567-E89B-12D3-A456-426614174000''" Completed None] held
  have "\<forall>r \<in> set (fst (updateStatus [sample_result]
                        ''123E4567-E89B-12D3-A456-426614174000'' Completed None)).
          status r = Some ''completed'' \<longrightarrow> has_artifacts r"
    by simp
  with run have "has_artifacts (sample_result\<lparr>status := Some ''completed''\<rparr>)"
    by simp
  with run show ?thesis
    by (simp add: sample_result_def)
qed

subsection \<open>C2: status transitions\<close>

text \<open>
  C2, as stated, fails. A failed record is set back to processing by \<open>updateStatus\<close>,
  and its message is rewritten on the way.
\<close>

theorem failed_back_to_processing:
  "status (sample_row\<lparr>status := Some ''failed''\<rparr>) = Some ''failed''
   \<and> updateStatus [sample_row\<lparr>status := Some ''failed''\<rparr>] sample_id Processing (Some ''again'') =
       ([sample_row\<lparr>message := Some ''again''\<rparr>], Inr (sample_row\<lparr>message := Some ''again''\<rparr>))
   \<and> status (sample_row\<lparr>message := Some ''again''\<rparr>) = Some ''processing''"
proof -
  have "updateStatus [sample_row\<lparr>status := Some ''failed''\<rparr>] sample_id Processing (Some ''again'') =
       ([sample_row\<lparr>message := Some ''again''\<rparr>], Inr (sample_row\<lparr>message := Some ''again''\<rparr>))"
    by code_simp
  then show ?thesis by (simp add: sample_row_def)
qed

text \<open>
  C2, amended. \<open>updateStatus\<close> does not look at the status a record has. Take a table
  whose ids are uuids as the database prints them and are distinct (the primary key), and
  a message without a character of code 0. If the id given is no text of a uuid, the
  call fails with the error of the database and writes nothing. Otherwise the record
  whose id is that uuid, in whatever spelling it is given, gets the requested status,
  whichever of the three it is and whatever the record's status was, and the given
  message if there is one; every other record and every other field stays as it was. The
  call returns the written record, or the error of \<^verbatim>\<open>.single()\<close> when no record has
  the id.
\<close>

theorem updateStatus_any_transition:
  assumes "list_all (\<lambda>r. uuid_in (row_id r) = Some (row_id r)) table"
    and "distinct (map row_id table)"
    and "message_ok msg"
  shows "updateStatus table podcastId st msg =
     (case uuid_in podcastId of
        None \<Rightarrow> (table, Inl InvalidTextRepresentation)
      | Some u \<Rightarrow>
          (map (\<lambda>r. if row_id r = u
                    then r\<lparr>status := Some (status_text st),
                           message := (case msg of None \<Rightarrow> message r | Some m \<Rightarrow> Some m)\<rparr>
                    else r) table,
           case find (\<lambda>r. row_id r = u) table of
             None \<Rightarrow> Inl NoSingleRow
           | Some r \<Rightarrow>
               Inr (r\<lparr>status := Some (status_text st),
                      message := (case msg of None \<Rightarrow> message r | Some m \<Rightarrow> Some m)\<rparr>)))"
proof (cases "uuid_in podcastId")
  case None
  then show ?thesis by (simp add: updateStatus_def)
next
  case (Some u)
  note printed = has_id_printed [OF assms(1) Some]
  show ?thesis
  proof (cases "find (\<lambda>r. row_id r = u) table")
    case None
    with Some assms(3) show ?thesis
      by (simp add: updateStatus_def update_where_set_status printed find_none_filter
          find_none_map)
  next
    case (Some x)
    with assms(2) have "filter (\<lambda>r. row_id r = u) table = [x]"
      by (simp add: primary_key_filter)
    with Some \<open>uuid_in podcastId = Some u\<close> assms(3) show ?thesis
      by (simp add: updateStatus_def update_where_set_status printed set_status_eq)
  qed
qed

text \<open>
  C2, amended, on a completed record that is set to processing under the upper-case
  spelling of its id, and on an id that is no uuid.
\<close>

theorem updateStatus_any_transition_witness:
  "list_all (\<lambda>r. uuid_in (row_id r) = Some (row_id r)) [sample_row\<lparr>status := Some ''completed''\<rparr>]
   \<and> distinct (map row_id [sample_row\<lparr>status := Some ''completed''\<rparr>])
   \<and> message_ok None
   \<and> updateStatus [sample_row\<lparr>status := Some ''completed''\<rparr>]
       ''123E4567-E89B-12D3-A456-426614174000'' Processing None =
       ([sample_row], Inr sample_row)
   \<and> updateStatus [sample_row\<lparr>status := Some ''completed''\<rparr>] ''p2'' Processing None =
       ([sample_row\<lparr>status := Some ''completed''\<rparr>], Inl InvalidTextRepresentation)"
proof -
  have printed: "uuid_in sample_id = Some sample_id" by code_simp
  have upper: "uuid_in ''123E4567-E89B-12D3-A456-426614174000'' = Some sample_id" by code_simp
  have other: "uuid_in ''p2'' = None" by code_simp
  from printed have table: "list_all (\<lambda>r. uuid_in (row_id r) = Some (row_id r))
                              [sample_row\<lparr>status := Some ''completed''\<rparr>]"
    by (simp add: sample_row_def)
  have msg: "message_ok None" by (simp add: message_ok_def)
  from updateStatus_any_transition
         [of "[sample_row\<lparr>status := Some ''completed''\<rparr>]" None
             "''123E4567-E89B-12D3-A456-426614174000''" Processing]
       updateStatus_any_transition
         [of "[sample_row\<lparr>status := Some ''completed''\<rparr>]" None "''p2''" Processing]
       table msg upper other
  show ?thesis by (simp add: sample_row_def)
qed

subsection \<open>C3: retrieval by id\<close>




subsection \<open>C4: what a submission requires\<close>

text \<open>
  C4, as stated, fails. With the same voice picked for host and co-host, \<open>handleSubmit\<close>
  makes the creation call.
\<close>

theorem same_voice_submitted:
  "handleSubmit (Some ''user_1'') sample_form =
     Created \<lparr>topics = [''ai''], duration = 300, host_voice = ''v1'', co_host_voice = ''v1'',
              language = ''en-US''\<rparr> ''user_1''"
  by (simp add: handleSubmit_def sample_form_def)

text \<open>
  C4, amended. \<open>handleSubmit\<close> makes the creation call exactly when a user is signed in,
  there is at least one topic and both voice identifiers are non-empty; the call carries
  the fields of the form and the user's id. For every form state with an empty host or
  co-host voice there is no creation call. Whether the two voices differ is not looked at.
\<close>

theorem handleSubmit_creates_iff:
  "handleSubmit user f = Created d uid \<longleftrightarrow>
     (user = Some uid \<and> topics_state f \<noteq> [] \<and> hostVoice f \<noteq> [] \<and> coHostVoice f \<noteq> []
      \<and> d = \<lparr>topics = topics_state f, duration = duration_state f,
              host_voice = hostVoice f, co_host_voice = coHostVoice f,
              language = language_state f\<rparr>)"
proof (cases user)
  case None
  then show ?thesis by (simp add: handleSubmit_def)
next
  case (Some signed_in)
  then show ?thesis by (auto simp: handleSubmit_def)
qed

text \<open>C4, amended, on a form whose co-host voice is empty: no creation call.\<close>

theorem handleSubmit_creates_iff_witness:
  "handleSubmit (Some ''user_1'') (sample_form\<lparr>coHostVoice := []\<rparr>) \<noteq>
     Created \<lparr>topics = [''ai''], duration = 300, host_voice = ''v1'', co_host_voice = [],
              language = ''en-US''\<rparr> ''user_1''"
  using handleSubmit_creates_iff
    [of "Some ''user_1''" "sample_form\<lparr>coHostVoice := []\<rparr>"
        "\<lparr>topics = [''ai''], duration = 300, host_voice = ''v1'', co_host_voice = [],
          language = ''en-US''\<rparr>" "''user_1''"]
  by simp

subsection \<open>C5: the values of the status column\<close>

text \<open>
  C5. Inserts and \<open>updateStatus\<close> keep every stored status within what the check
  constraint admits (lemmas \<open>insert_row_status_check\<close> and
  \<open>updateStatus_status_check\<close>), but the constraint lets \<^verbatim>\<open>NULL\<close> through and the
  column is not declared \<^verbatim>\<open>NOT NULL\<close>: an insert that names the status as \<^verbatim>\<open>NULL\<close>
  is accepted, and the listing hands the caller a record whose status is none of
  processing, completed and failed; it has no other outcome.
\<close>

theorem null_status_stored:
  "insert_row sample_id 0 [] (sample_insert\<lparr>new_status := Null\<rparr>) =
     Inr [sample_row\<lparr>status := None\<rparr>]
   \<and> getByUser None [sample_row\<lparr>status := None\<rparr>] ''user_1'' 1 10 =
     {Inr ([sample_row\<lparr>status := None\<rparr>], 1)}"
proof -
  have stored: "insert_row sample_id 0 [] (sample_insert\<lparr>new_status := Null\<rparr>) =
     Inr [sample_row\<lparr>status := None\<rparr>]"
    by code_simp
  have listed: "getByUser None [sample_row\<lparr>status := None\<rparr>] ''user_1'' 1 10 =
     {Inr ([sample_row\<lparr>status := None\<rparr>], 1)}"
    by code_simp
  from stored listed show ?thesis by (rule conjI)
qed

subsection \<open>C6: listing a user's records\<close>




subsection \<open>C7: the bounds of the duration\<close>

text \<open>
  C7, as stated, fails. The table takes a record of five seconds: the duration column has
  no bound but that of its type.
\<close>

theorem short_duration_stored:
  "insert_row sample_id 0 [] (sample_insert\<lparr>new_duration := Given 5\<rparr>) =
     Inr [sample_row\<lparr>duration := 5\<rparr>]"
  by code_simp

text \<open>
  C7, amended. Whatever is done to the creation form after it is mounted, a creation call
  it makes carries one of the six values of \<open>DURATION_OPTIONS\<close>, which all lie in
  \<open>[60, 3600]\<close>. The table bounds the duration by its column type only: an insert is
  accepted with every duration that a 32-bit integer holds, and refused beyond.
\<close>

theorem form_submits_duration_option:
  "(handleSubmit user (form_after events) = Created d uid \<longrightarrow>
      duration d \<in> set (map fst DURATION_OPTIONS) \<and> 60 \<le> duration d \<and> duration d \<le> 3600)
   \<and> insert_row sample_id 0 [] (sample_insert\<lparr>new_duration := Given n\<rparr>) =
       (if - 2147483648 \<le> n \<and> n \<le> 2147483647
        then Inr [sample_row\<lparr>duration := n\<rparr>]
        else Inl NumericValueOutOfRange)"
proof -
  have form: "handleSubmit user (form_after events) = Created d uid \<longrightarrow>
      duration d \<in> set (map fst DURATION_OPTIONS) \<and> 60 \<le> duration d \<and> duration d \<le> 3600"
  proof (rule impI)
    assume "handleSubmit user (form_after events) = Created d uid"
    then have "duration d = duration_state (form_after events)"
      by (auto simp: handleSubmit_def split: option.splits if_splits)
    with form_after_duration [of events]
    show "duration d \<in> set (map fst DURATION_OPTIONS) \<and> 60 \<le> duration d \<and> duration d \<le> 3600"
      by (auto simp: DURATION_OPTIONS_def)
  qed
  have printed: "uuid_in sample_id = Some sample_id" by code_simp
  have clean: "\<not> texts_refused (sample_insert\<lparr>new_duration := Given n\<rparr>)"
    by (simp add: texts_refused_def refused_def sample_insert_def text_ok_def)
  from printed clean
  have table: "insert_row sample_id 0 [] (sample_insert\<lparr>new_duration := Given n\<rparr>) =
       (if - 2147483648 \<le> n \<and> n \<le> 2147483647
        then Inr [sample_row\<lparr>duration := n\<rparr>]
        else Inl NumericValueOutOfRange)"
    by (simp add: insert_row_def refused_def int32_ok_def sample_insert_def
        sample_row_def cell_value_def status_check_def)
  from form table show ?thesis by (rule conjI)
qed

text \<open>
  C7, amended, on a form that is filled in and set to the last option, and on the first
  duration beyond the column type.
\<close>

theorem form_submits_duration_option_witness:
  "handleSubmit (Some ''user_1'')
     (form_after [VoicesFetched [''v1'', ''v2''], TopicTyped '' ai '', AddTopic, DurationPicked 5]) =
     Created \<lparr>topics = [''ai''], duration = 3600, host_voice = ''v1'', co_host_voice = ''v2'',
              language = ''en-US''\<rparr> ''user_1''
   \<and> (3600::int) \<in> set (map fst DURATION_OPTIONS)
   \<and> (60::int) \<le> 3600 \<and> (3600::int) \<le> 3600
   \<and> insert_row sample_id 0 [] (sample_insert\<lparr>new_duration := Given 2147483648\<rparr>) =
       Inl NumericValueOutOfRange"
proof -
  have run: "handleSubmit (Some ''user_1'')
     (form_after [VoicesFetched [''v1'', ''v2''], TopicTyped '' ai '', AddTopic, DurationPicked 5]) =
     Created \<lparr>topics = [''ai''], duration = 3600, host_voice = ''v1'', co_host_voice = ''v2'',
              language = ''en-US''\<rparr> ''user_1''"
    by code_simp
  from form_submits_duration_option
         [of "Some ''user_1''"
             "[VoicesFetched [''v1'', ''v2''], TopicTyped '' ai '', AddTopic, DurationPicked 5]"
             "\<lparr>topics = [''ai''], duration = 3600, host_voice = ''v1'', co_host_voice = ''v2'',
               language = ''en-US''\<rparr>" "''user_1''" 2147483648]
       run
  show ?thesis by simp
qed

subsection \<open>C8: the duration the Assembler reports\<close>

text \<open>
  C8. For every non-empty list of segments and every gap policy, the Assembler returns
  the track together with a duration that is exactly the sum of the segments' durations
  plus the sum of the gaps put between them, one gap for each pair of neighbours; an empty
  list is refused. Being a function of the segments and the policy, the result is the
  same for the same inputs.
\<close>

theorem assemble_duration:
  "assemble gap segments =
     (if segments = [] then Inl AssemblyFailed
      else Inr (interleave gap 0 segments,
                sum_list (map seg_duration segments) +
                sum_list (map gap [0..<length segments - 1])))"
  using interleave_duration [of gap 0 segments] by (simp add: assemble_def)

text \<open>
  C8 on five segments of 2, 3, 1, 4 and 2 seconds with half a second between them:
  14 seconds.
\<close>

theorem assemble_duration_witness:
  "assemble (fixed_gap (1 / 2)) (map tone [2, 3, 1, 4, 2]) =
     Inr (interleave (fixed_gap (1 / 2)) 0 (map tone [2, 3, 1, 4, 2]), 14)"
  using assemble_duration [of "fixed_gap (1 / 2)" "map tone [2, 3, 1, 4, 2]"]
  by (simp add: tone_def fixed_gap_def)

subsection \<open>C9: records without topics on the list page\<close>

text \<open>
  C9. A podcast whose topics array is empty is in the displayed list for no search query,
  status filter and sort order, the empty query included: the match asks for a
  topic that contains the query, and there is none.
\<close>

theorem empty_topics_never_listed:
  assumes "topics p = []"
  shows "p \<notin> set (filteredPodcasts podcasts searchQuery statusFilter sort_state)"
proof -
  from assms have "\<not> matchesSearch searchQuery p"
    by (simp add: matchesSearch_def)
  then have "p \<notin> set (filter (\<lambda>podcast. matchesSearch searchQuery podcast \<and>
                                         matchesStatus statusFilter podcast) podcasts)"
    by simp
  then show ?thesis
    by (simp add: filteredPodcasts_def set_sort_by)
qed

text \<open>C9 on the empty query: of two records only the one with a topic is displayed.\<close>

theorem empty_topics_never_listed_witness:
  "topics (sample_row\<lparr>topics := []\<rparr>) = []
   \<and> sample_row\<lparr>topics := []\<rparr> \<notin>
       set (filteredPodcasts [sample_row\<lparr>topics := []\<rparr>, sample_row] [] ''all'' ''created_desc'')
   \<and> filteredPodcasts [sample_row\<lparr>topics := []\<rparr>, sample_row] [] ''all'' ''created_desc'' =
       [sample_row]"
proof -
  have shown: "filteredPodcasts [sample_row\<lparr>topics := []\<rparr>, sample_row] [] ''all'' ''created_desc'' =
       [sample_row]"
    by (simp add: filteredPodcasts_def matchesSearch_def matchesStatus_def sort_by_def
        sample_row_def toLowerCase_def)
  have "topics (sample_row\<lparr>topics := []\<rparr>) = []" by simp
  from empty_topics_never_listed
         [OF this, of "[sample_row\<lparr>topics := []\<rparr>, sample_row]" "[]" "''all''" "''created_desc''"]
       shown
  show ?thesis by simp
qed

subsection \<open>C10: the result of voiceApi.getAll\<close>

text \<open>
  C10, as stated, fails. A 200 response whose body is an object with a non-empty string in
  its \<^verbatim>\<open>voices\<close> field makes \<open>getAll\<close> return that string, which is not a list.
\<close>

theorem voices_not_a_list:
  "getAll (Inr (sample_response (JObj [(''voices'', JStr ''unavailable'')]))) =
     Inr (JStr ''unavailable'')
   \<and> \<not> isArray (JStr ''unavailable'')"
  by (simp add: getAll_def getAll_body_def sample_response_def ok_def response_json_def
      or_else_def)

text \<open>
  C10, amended. \<open>getAll\<close> is total at its interface: for every backend response and for
  every network failure it returns a value and hands no error to its caller. In every
  failure case (the request fails, the status is not OK, the body is not JSON or is
  \<^verbatim>\<open>null\<close>) the value is the empty list. The value is a list for every response whose
  \<^verbatim>\<open>voices\<close> field, where the body is an object that has a truthy one, is an array.
\<close>

theorem getAll_total:
  "(\<exists>v. getAll fetched = Inr v)
   \<and> ((case fetched of
          Inl e \<Rightarrow> True
        | Inr response \<Rightarrow> \<not> ok response \<or> body response = None \<or> body response = Some JNull)
        \<longrightarrow> getAll fetched = Inr (JArr []))
   \<and> ((\<forall>response kvs v.
           fetched = Inr response \<and> body response = Some (JObj kvs) \<and>
           map_of (rev kvs) ''voices'' = Some v \<and> truthy (Some v) \<longrightarrow> isArray v)
        \<longrightarrow> (\<exists>xs. getAll fetched = Inr (JArr xs)))"
proof (intro conjI impI)
  show "\<exists>v. getAll fetched = Inr v"
    by (simp add: getAll_returns)
next
  assume "case fetched of
            Inl e \<Rightarrow> True
          | Inr response \<Rightarrow> \<not> ok response \<or> body response = None \<or> body response = Some JNull"
  then show "getAll fetched = Inr (JArr [])"
    by (auto simp: getAll_returns split: sum.splits)
next
  assume shaped: "\<forall>response kvs v.
           fetched = Inr response \<and> body response = Some (JObj kvs) \<and>
           map_of (rev kvs) ''voices'' = Some v \<and> truthy (Some v) \<longrightarrow> isArray v"
  show "\<exists>xs. getAll fetched = Inr (JArr xs)"
  proof (cases fetched)
    case (Inl e)
    then show ?thesis by (simp add: getAll_returns)
  next
    case (Inr response)
    show ?thesis
    proof (cases "body response")
      case None
      with Inr show ?thesis by (simp add: getAll_returns)
    next
      case (Some data)
      show ?thesis
      proof (cases data)
        case (JObj kvs)
        show ?thesis
        proof (cases "map_of (rev kvs) ''voices''")
          case None
          with Inr Some JObj show ?thesis by (simp add: getAll_returns or_else_def)
        next
          case (Some v)
          show ?thesis
          proof (cases "truthy (Some v)")
            case True
            with shaped Inr \<open>body response = Some data\<close> JObj Some have "isArray v" by blast
            then obtain xs where "v = JArr xs" by (cases v) simp_all
            with Inr \<open>body response = Some data\<close> JObj Some show ?thesis
              by (simp add: getAll_returns or_else_def)
          next
            case False
            with Inr \<open>body response = Some data\<close> JObj Some show ?thesis
              by (simp add: getAll_returns or_else_def)
          qed
        qed
      qed (use Inr Some in \<open>simp_all add: getAll_returns\<close>)
    qed
  qed
qed

text \<open>
  C10, amended, on an object with a list of two voices, on a 503 response and on a request
  that fails.
\<close>

theorem getAll_total_witness:
  "getAll (Inr (sample_response (JObj [(''voices'', JArr [JStr ''v1'', JStr ''v2''])]))) =
     Inr (JArr [JStr ''v1'', JStr ''v2''])
   \<and> getAll (Inr \<lparr>status_code = 503, statusText = ''Service Unavailable'', body = None\<rparr>) =
     Inr (JArr [])
   \<and> getAll (Inl (TypeError ''Failed to fetch'')) = Inr (JArr [])"
  using getAll_total [of "Inr (sample_response (JObj [(''voices'', JArr [JStr ''v1'', JStr ''v2''])]))"]
    getAll_total [of "Inr \<lparr>status_code = 503, statusText = ''Service Unavailable'', body = None\<rparr>"]
    getAll_total [of "Inl (TypeError ''Failed to fetch'')"]
  by (simp add: getAll_def getAll_body_def sample_response_def ok_def response_json_def
      or_else_def)

end
